theory Spec2Isabelle
  imports Main
begin

section \<open>The Go runtime the program runs on\<close>

text \<open>
  \<^verbatim>\<open>main.go\<close> is one package of four functions (\<^verbatim>\<open>makeDir\<close>, \<^verbatim>\<open>createFile\<close>,
  \<^verbatim>\<open>createTerraformLocals\<close>, \<^verbatim>\<open>createTerraformMain\<close>) and \<^verbatim>\<open>main\<close>. Everything they
  touch is ambient: the file system (\<^verbatim>\<open>os.Stat\<close>, \<^verbatim>\<open>os.Mkdir\<close>, \<^verbatim>\<open>os.Create\<close>,
  \<^verbatim>\<open>File.Write\<close>), the environment (\<^verbatim>\<open>os.Getenv\<close>) and the global random source
  (\<^verbatim>\<open>rand.Int\<close>). The embedding passes that state explicitly as one record, the
  \<open>world\<close>. The standard library is not part of the repository; its calls are modelled
  here after their documented behaviour, each in a definition named after the call.
\<close>

subsection \<open>Errors and panics\<close>

text \<open>
  An \<open>errno\<close> is the error value a library call returns. A \<open>panic\<close> is what
  \<^verbatim>\<open>panic(err)\<close> does to the process: a function of the program returns
  \<open>Inl (Panic e)\<close> when the process was aborted, and \<open>Inr\<close> of its result otherwise.
\<close>

datatype errno = ENOENT | EEXIST | EACCES | ENOTDIR | EISDIR | EBADF | ENOSPC | EIO

datatype panic = Panic errno

text \<open>\<^verbatim>\<open>os.IsNotExist(err)\<close> for a non-nil error: true for "no such file or directory".\<close>

definition IsNotExist :: "errno \<Rightarrow> bool" where
  "IsNotExist err = (err = ENOENT)"

subsection \<open>The world: file system, environment, random source\<close>

text \<open>
  A path names a directory or a regular file holding bytes. Paths are compared as
  written (the program uses three: \<^verbatim>\<open>terraform\<close>, \<^verbatim>\<open>terraform/locals.tf\<close>,
  \<^verbatim>\<open>terraform/main.tf\<close>). Permission bits are not tracked; what they and the rest of
  the operating system can refuse is given by the fault tables: \<open>stat_fault w p = Some e\<close>
  says that a stat of \<open>p\<close> fails with \<open>e\<close>, and likewise for mkdir and create.
  \<open>write_limit w p = Some k\<close> says that a write to \<open>p\<close> stores at most \<open>k\<close> bytes
  (a full disk, a quota). The tables do not change while the program runs.
\<close>

datatype inode = Directory | Regular string

record open_file =
  of_path :: string
  of_offset :: nat
  of_writable :: bool

record world =
  nodes :: "string \<rightharpoonup> inode"
  open_files :: "nat \<rightharpoonup> open_file"
  next_fd :: nat
  stat_fault :: "string \<rightharpoonup> errno"
  mkdir_fault :: "string \<rightharpoonup> errno"
  create_fault :: "string \<rightharpoonup> errno"
  write_limit :: "string \<rightharpoonup> nat"
  environ :: "string \<rightharpoonup> string"
  rand_source :: "nat \<Rightarrow> nat"
  rand_calls :: nat

text \<open>The directory part of a path: what stands before its last slash, if it has one.\<close>

definition dirname :: "string \<Rightarrow> string option" where
  "dirname p =
     (if CHR ''/'' \<in> set p
      then Some (rev (tl (dropWhile (\<lambda>c. c \<noteq> CHR ''/'') (rev p))))
      else None)"

text \<open>
  Every call that resolves a path needs the directory part to be a directory. A path
  without a slash is relative to the working directory, which is taken to exist.
\<close>

definition parent_error :: "world \<Rightarrow> string \<Rightarrow> errno option" where
  "parent_error w p =
     (case dirname p of
        None \<Rightarrow> None
      | Some d \<Rightarrow>
          if d = [] then None
          else (case nodes w d of
                  None \<Rightarrow> Some ENOENT
                | Some Directory \<Rightarrow> None
                | Some (Regular _) \<Rightarrow> Some ENOTDIR))"

text \<open>\<^verbatim>\<open>os.Stat(name)\<close>: the node at \<open>name\<close>, or the error.\<close>

definition os_Stat :: "string \<Rightarrow> world \<Rightarrow> errno + inode" where
  "os_Stat name w =
     (case stat_fault w name of
        Some e \<Rightarrow> Inl e
      | None \<Rightarrow>
          (case parent_error w name of
             Some e \<Rightarrow> Inl e
           | None \<Rightarrow> (case nodes w name of None \<Rightarrow> Inl ENOENT | Some n \<Rightarrow> Inr n)))"

text \<open>
  \<^verbatim>\<open>os.Mkdir(name, perm)\<close>: creates the directory, or returns the error and changes
  nothing. It fails with \<open>EEXIST\<close> when the path is taken.
\<close>

definition os_Mkdir :: "string \<Rightarrow> nat \<Rightarrow> world \<Rightarrow> errno option \<times> world" where
  "os_Mkdir name perm w =
     (case mkdir_fault w name of
        Some e \<Rightarrow> (Some e, w)
      | None \<Rightarrow>
          (case parent_error w name of
             Some e \<Rightarrow> (Some e, w)
           | None \<Rightarrow>
               (case nodes w name of
                  Some _ \<Rightarrow> (Some EEXIST, w)
                | None \<Rightarrow> (None, w\<lparr>nodes := (nodes w)(name \<mapsto> Directory)\<rparr>))))"

text \<open>
  \<^verbatim>\<open>os.Create(name)\<close> is \<^verbatim>\<open>OpenFile(name, O_RDWR|O_CREATE|O_TRUNC, 0666)\<close>: the file
  is created if absent and truncated if present, and a new descriptor, open for
  reading and writing at offset 0, is returned.
\<close>

definition os_Create :: "string \<Rightarrow> world \<Rightarrow> errno + (nat \<times> world)" where
  "os_Create name w =
     (case create_fault w name of
        Some e \<Rightarrow> Inl e
      | None \<Rightarrow>
          (case parent_error w name of
             Some e \<Rightarrow> Inl e
           | None \<Rightarrow>
               (case nodes w name of
                  Some Directory \<Rightarrow> Inl EISDIR
                | _ \<Rightarrow>
                    Inr (next_fd w,
                         w\<lparr>nodes := (nodes w)(name \<mapsto> Regular []),
                           open_files := (open_files w)(next_fd w \<mapsto>
                              \<lparr>of_path = name, of_offset = 0, of_writable = True\<rparr>),
                           next_fd := Suc (next_fd w)\<rparr>))))"

text \<open>How many of \<open>n\<close> bytes a write to \<open>p\<close> stores.\<close>

definition write_count :: "world \<Rightarrow> string \<Rightarrow> nat \<Rightarrow> nat" where
  "write_count w p n = (case write_limit w p of None \<Rightarrow> n | Some k \<Rightarrow> min k n)"

text \<open>
  \<^verbatim>\<open>file.Write(b)\<close>: stores the bytes at the descriptor's offset and advances it; returns
  the number of bytes written, and an error exactly when that is less than \<open>length b\<close>.
\<close>

definition os_Write :: "nat \<Rightarrow> string \<Rightarrow> world \<Rightarrow> (nat \<times> errno option) \<times> world" where
  "os_Write fd b w =
     (case open_files w fd of
        None \<Rightarrow> ((0, Some EBADF), w)
      | Some f \<Rightarrow>
          if \<not> of_writable f then ((0, Some EBADF), w)
          else
            (case nodes w (of_path f) of
               Some (Regular old) \<Rightarrow>
                 (let n = write_count w (of_path f) (length b);
                      padded = old @ replicate (of_offset f - length old) (CHR 0x00);
                      new = (if n = 0 then old
                             else take (of_offset f) padded @ take n b
                                  @ drop (of_offset f + n) old)
                  in ((n, if n < length b then Some ENOSPC else None),
                      w\<lparr>nodes := (nodes w)(of_path f \<mapsto> Regular new),
                        open_files := (open_files w)(fd \<mapsto> f\<lparr>of_offset := of_offset f + n\<rparr>)\<rparr>))
             | _ \<Rightarrow> ((0, Some EIO), w)))"

text \<open>\<^verbatim>\<open>os.Getenv(key)\<close>: the value, or the empty string when the variable is unset.\<close>

definition os_Getenv :: "string \<Rightarrow> world \<Rightarrow> string" where
  "os_Getenv key w = (case environ w key of None \<Rightarrow> [] | Some v \<Rightarrow> v)"

text \<open>
  \<^verbatim>\<open>rand.Int()\<close>: the next non-negative integer of the global source. \<open>rand_source w k\<close>
  is what the \<open>k\<close>-th call returns.
\<close>

definition rand_Int :: "world \<Rightarrow> nat \<times> world" where
  "rand_Int w = (rand_source w (rand_calls w), w\<lparr>rand_calls := Suc (rand_calls w)\<rparr>)"

subsection \<open>\<^verbatim>\<open>fmt.Sprint\<close>\<close>

text \<open>\<^verbatim>\<open>fmt.Sprint\<close> of a non-negative integer is its decimal numeral; of a string, the string.\<close>

definition digit :: "nat \<Rightarrow> char" where
  "digit d = ''0123456789'' ! d"

fun Sprint_int :: "nat \<Rightarrow> string" where
  "Sprint_int n = (if n < 10 then [digit n] else Sprint_int (n div 10) @ [digit (n mod 10)])"

declare Sprint_int.simps [simp del]

definition Sprint_string :: "string \<Rightarrow> string" where
  "Sprint_string s = s"

section \<open>The two shared utilities\<close>

definition tfDir :: string where
  "tfDir = ''terraform''"

definition tfLocalsFileName :: string where
  "tfLocalsFileName = ''locals.tf''"

definition tfMainFileName :: string where
  "tfMainFileName = ''main.tf''"

text \<open>\<^verbatim>\<open>os.ModeDir\<close> is bit 31 of a file mode; \<^verbatim>\<open>0755\<close> is octal.\<close>

definition os_ModeDir :: nat where
  "os_ModeDir = 2 ^ 31"

text \<open>
  \<^verbatim>\<open>
  func makeDir(path string) {
      if _, err := os.Stat(path); os.IsNotExist(err) {
          os.Mkdir(path, os.ModeDir|0755)
      } else if err != nil {
          panic(err)
      }
  }
  \<close>
  What \<^verbatim>\<open>os.Mkdir\<close> returns is dropped: only the world it leaves is kept.
\<close>

definition makeDir :: "string \<Rightarrow> world \<Rightarrow> panic + world" where
  "makeDir path w =
     (case os_Stat path w of
        Inl err \<Rightarrow>
          if IsNotExist err then Inr (snd (os_Mkdir path (or os_ModeDir 493) w))
          else Inl (Panic err)
      | Inr _ \<Rightarrow> Inr w)"

text \<open>
  \<^verbatim>\<open>
  func createFile(fileName string) *os.File {
      file, err := os.Create(tfDir + "/" + fileName)
      if err != nil {
          panic(err)
      }
      return file
  }
  \<close>
\<close>

definition createFile :: "string \<Rightarrow> world \<Rightarrow> panic + (nat \<times> world)" where
  "createFile fileName w =
     (case os_Create (tfDir @ ''/'' @ fileName) w of
        Inl err \<Rightarrow> Inl (Panic err)
      | Inr (file, w') \<Rightarrow> Inr (file, w'))"

section \<open>The document libraries: \<^verbatim>\<open>cty\<close> values and the \<^verbatim>\<open>hclwrite\<close> syntax tree\<close>

subsection \<open>Go maps\<close>

text \<open>
  A \<^verbatim>\<open>map[string]V\<close> is a list of key/value pairs with pairwise distinct keys.
  \<^verbatim>\<open>m[k] = v\<close> replaces the value of a key that is present and adds the pair otherwise;
  \<^verbatim>\<open>len(m)\<close> is the length of the list.
\<close>

fun map_assign :: "string \<Rightarrow> 'v \<Rightarrow> (string \<times> 'v) list \<Rightarrow> (string \<times> 'v) list" where
  "map_assign k v [] = [(k, v)]"
| "map_assign k v ((k', v') # m) =
     (if k' = k then (k, v) # m else (k', v') # map_assign k v m)"

subsection \<open>\<^verbatim>\<open>cty\<close> values\<close>

text \<open>
  A \<^verbatim>\<open>cty\<close> value is a string or an object. \<open>StringVal s\<close> is the string value that
  holds \<open>s\<close>; \<open>ObjectVal m\<close> is the object with the attributes \<open>m\<close>.
\<close>

datatype cty_value = StringVal string | ObjectVal "(string \<times> cty_value) list"

text \<open>
  The call \<^verbatim>\<open>cty.StringVal(v)\<close> does not keep \<open>v\<close> as given: it stores
  \<^verbatim>\<open>NormalizeString(v)\<close>, the Unicode normal form NFC of \<open>v\<close>. The normalisation is a
  function of the library and is taken as a parameter, not fixed here. On the text
  the Locals Emitter passes (\<^verbatim>\<open>crn:v1:bluemix:\<close> and decimal digits, all ASCII) it
  changes nothing, so the loops below build \<open>StringVal\<close> of that text directly; where
  the program passes a string it has not made itself, the value of an environment
  variable, the call is \<open>cty_StringVal\<close>. \<^verbatim>\<open>cty.ObjectVal\<close> normalises the attribute
  names in the same way; the names the program uses are ASCII.
\<close>

definition cty_StringVal :: "(string \<Rightarrow> string) \<Rightarrow> string \<Rightarrow> cty_value" where
  "cty_StringVal NormalizeString v = StringVal (NormalizeString v)"

subsection \<open>\<^verbatim>\<open>hcl.Traversal\<close> and the \<^verbatim>\<open>hclwrite\<close> tree\<close>

datatype traverser = TraverseRoot string | TraverseAttr string

datatype expression = ValueExpr cty_value | TraversalExpr "traverser list"

text \<open>
  A body is a list of items: attributes (a name and an expression) and blocks (a type
  name, labels and a body). A file is its root body.
\<close>

datatype node = Attribute string expression | Block string "string list" "node list"

text \<open>
  The tokens \<^verbatim>\<open>hclwrite\<close> writes for a traversal, joined: the root's name as it is, and
  a dot and the name for each attribute step.
\<close>

fun traverser_text :: "traverser \<Rightarrow> string" where
  "traverser_text (TraverseRoot name) = name"
| "traverser_text (TraverseAttr name) = ''.'' @ name"

definition traversal_text :: "traverser list \<Rightarrow> string" where
  "traversal_text t = concat (map traverser_text t)"

text \<open>
  The program holds pointers into the tree (\<^verbatim>\<open>resourceBody\<close>, \<^verbatim>\<open>dynamicBlockBody\<close>,
  \<^verbatim>\<open>contentBlockBody\<close>) and changes the file through them. A pointer to a body is the
  list of positions that leads to it from the root body; \<open>[]\<close> is \<^verbatim>\<open>hclFile.Body()\<close>.
\<close>

fun body_at :: "nat list \<Rightarrow> node list \<Rightarrow> node list" where
  "body_at [] b = b"
| "body_at (i # p) b =
     (if i < length b
      then (case b ! i of Block t ls inner \<Rightarrow> body_at p inner | Attribute n e \<Rightarrow> [])
      else [])"

fun modify_body :: "nat list \<Rightarrow> (node list \<Rightarrow> node list) \<Rightarrow> node list \<Rightarrow> node list" where
  "modify_body [] f b = f b"
| "modify_body (i # p) f b =
     (if i < length b
      then (case b ! i of
              Block t ls inner \<Rightarrow> b[i := Block t ls (modify_body p f inner)]
            | Attribute n e \<Rightarrow> b)
      else b)"

text \<open>
  \<^verbatim>\<open>Body.SetAttributeValue\<close> and \<^verbatim>\<open>Body.SetAttributeTraversal\<close> replace the expression
  of the attribute of that name when the body has one, and append a new attribute
  otherwise.
\<close>

fun set_attribute :: "string \<Rightarrow> expression \<Rightarrow> node list \<Rightarrow> node list" where
  "set_attribute name e [] = [Attribute name e]"
| "set_attribute name e (Attribute n e' # b) =
     (if n = name then Attribute n e # b else Attribute n e' # set_attribute name e b)"
| "set_attribute name e (Block t ls inner # b) = Block t ls inner # set_attribute name e b"

text \<open>\<^verbatim>\<open>Body.GetAttribute(name)\<close>: the expression of the attribute of that name, if any.\<close>

fun GetAttribute :: "string \<Rightarrow> node list \<Rightarrow> expression option" where
  "GetAttribute name [] = None"
| "GetAttribute name (Attribute n e # b) =
     (if n = name then Some e else GetAttribute name b)"
| "GetAttribute name (Block t ls inner # b) = GetAttribute name b"

definition NewEmptyFile :: "node list" where
  "NewEmptyFile = []"

definition SetAttributeValue :: "nat list \<Rightarrow> string \<Rightarrow> cty_value \<Rightarrow> node list \<Rightarrow> node list" where
  "SetAttributeValue body name val hclFile =
     modify_body body (set_attribute name (ValueExpr val)) hclFile"

definition SetAttributeTraversal ::
  "nat list \<Rightarrow> string \<Rightarrow> traverser list \<Rightarrow> node list \<Rightarrow> node list" where
  "SetAttributeTraversal body name traversal hclFile =
     modify_body body (set_attribute name (TraversalExpr traversal)) hclFile"

text \<open>
  \<^verbatim>\<open>Body.AppendNewBlock(typeName, labels)\<close> appends an empty block and returns it; the
  model returns the pointer to the new block's body with the changed file.
\<close>

definition AppendNewBlock ::
  "nat list \<Rightarrow> string \<Rightarrow> string list \<Rightarrow> node list \<Rightarrow> nat list \<times> node list" where
  "AppendNewBlock body typeName labels hclFile =
     (body @ [length (body_at body hclFile)],
      modify_body body (\<lambda>items. items @ [Block typeName labels []]) hclFile)"

section \<open>The Locals Emitter\<close>

text \<open>
  The inner loop of \<^verbatim>\<open>createTerraformLocals\<close>:
  \<^verbatim>\<open>
  for indexField < 5 {
      crnMap["field-"+fmt.Sprint(fmt.Sprint(rand.Int()))] =
          cty.StringVal("crn:v1:bluemix:" + fmt.Sprint(rand.Int()))
      indexField++
  }
  \<close>
  Go evaluates the operands of the assignment from left to right: the key's
  \<^verbatim>\<open>rand.Int()\<close> is called before the value's.
\<close>

function fields_loop ::
  "nat \<Rightarrow> (string \<times> cty_value) list \<Rightarrow> world \<Rightarrow> (string \<times> cty_value) list \<times> world" where
  "fields_loop indexField crnMap w =
     (if indexField < 5 then
        (let (r1, w1) = rand_Int w;
             (r2, w2) = rand_Int w1
         in fields_loop (indexField + 1)
              (map_assign (''field-'' @ Sprint_string (Sprint_int r1))
                 (StringVal (''crn:v1:bluemix:'' @ Sprint_int r2)) crnMap)
              w2)
      else (crnMap, w))"
  by pat_completeness auto
termination
  by (relation "measure (\<lambda>(indexField, crnMap, w). 5 - indexField)") auto

declare fields_loop.simps [simp del]

text \<open>
  The outer loop:
  \<^verbatim>\<open>
  for indexSecret < 5 {
      indexField := 0
      fieldsMap := make(map[string]cty.Value)
      crnMap := make(map[string]cty.Value)
      for indexField < 5 { ... }
      fieldsMap["fields"] = cty.ObjectVal(crnMap)
      secretsMap["secret-"+fmt.Sprint(indexSecret)] = cty.ObjectVal(fieldsMap)
      indexSecret++
  }
  \<close>
\<close>

function secrets_loop ::
  "nat \<Rightarrow> (string \<times> cty_value) list \<Rightarrow> world \<Rightarrow> (string \<times> cty_value) list \<times> world" where
  "secrets_loop indexSecret secretsMap w =
     (if indexSecret < 5 then
        (let (crnMap, w') = fields_loop 0 [] w;
             fieldsMap = map_assign ''fields'' (ObjectVal crnMap) []
         in secrets_loop (indexSecret + 1)
              (map_assign (''secret-'' @ Sprint_int indexSecret) (ObjectVal fieldsMap) secretsMap)
              w')
      else (secretsMap, w))"
  by pat_completeness auto
termination
  by (relation "measure (\<lambda>(indexSecret, secretsMap, w). 5 - indexSecret)") auto

declare secrets_loop.simps [simp del]

text \<open>
  The document \<^verbatim>\<open>createTerraformLocals\<close> builds (lines 36 and 40 to 61): an empty file,
  the block \<^verbatim>\<open>locals\<close>, the two loops, the attribute \<^verbatim>\<open>secrets\<close>. It reads the random
  source and nothing else of the world.
\<close>

definition locals_document :: "world \<Rightarrow> node list \<times> world" where
  "locals_document w =
     (let hclFile = NewEmptyFile;
          (terraformLocals, hclFile) = AppendNewBlock [] ''locals'' [] hclFile;
          (secretsMap, w') = secrets_loop 0 [] w
      in (SetAttributeValue terraformLocals ''secrets'' (ObjectVal secretsMap) hclFile, w'))"

text \<open>
  \<^verbatim>\<open>createTerraformLocals\<close>, in the order of the source: the directory, the file, the
  document, the write. \<open>Bytes\<close> is \<^verbatim>\<open>hclFile.Bytes()\<close>, the serializer of \<^verbatim>\<open>hclwrite\<close>:
  a function from the tree to the text, not fixed here. What \<^verbatim>\<open>tfFile.Write\<close> returns
  is dropped.
\<close>

definition createTerraformLocals :: "(node list \<Rightarrow> string) \<Rightarrow> world \<Rightarrow> panic + world" where
  "createTerraformLocals Bytes w =
     (case makeDir tfDir w of
        Inl p \<Rightarrow> Inl p
      | Inr w1 \<Rightarrow>
          (case createFile tfLocalsFileName w1 of
             Inl p \<Rightarrow> Inl p
           | Inr (tfFile, w2) \<Rightarrow>
               (let (hclFile, w3) = locals_document w2
                in Inr (snd (os_Write tfFile (Bytes hclFile) w3)))))"

section \<open>The Resource Emitter\<close>

text \<open>
  The document \<^verbatim>\<open>createTerraformMain\<close> builds (lines 66 and 70 to 102). It reads the two
  environment variables and nothing else of the world. \<open>NormalizeString\<close> is the
  normalisation \<^verbatim>\<open>cty.StringVal\<close> applies.
\<close>

definition main_document :: "(string \<Rightarrow> string) \<Rightarrow> world \<Rightarrow> node list" where
  "main_document NormalizeString w =
     (let hclFile = NewEmptyFile;
          (resourceBody, hclFile) =
             AppendNewBlock [] ''resource''
               [''ibm_container_ingress_secret_opaque'', ''ingress-secret''] hclFile;
          hclFile = SetAttributeTraversal resourceBody ''for_each''
             [TraverseRoot ''local'', TraverseAttr ''secrets''] hclFile;
          hclFile = SetAttributeValue resourceBody ''cluster''
             (cty_StringVal NormalizeString (os_Getenv ''CLUSTER_ID'' w)) hclFile;
          hclFile = SetAttributeTraversal resourceBody ''secret_name''
             [TraverseRoot ''each'', TraverseAttr ''key''] hclFile;
          hclFile = SetAttributeValue resourceBody ''secret_namespace''
             (cty_StringVal NormalizeString (os_Getenv ''NAMESPACE'' w)) hclFile;
          (dynamicBlockBody, hclFile) =
             AppendNewBlock resourceBody ''dynamic'' [''fields''] hclFile;
          hclFile = SetAttributeTraversal dynamicBlockBody ''for_each''
             [TraverseRoot ''local.secrets[each.key]'', TraverseAttr ''fields''] hclFile;
          (contentBlockBody, hclFile) =
             AppendNewBlock dynamicBlockBody ''content'' [] hclFile;
          hclFile = SetAttributeTraversal contentBlockBody ''field_name''
             [TraverseRoot ''fields'', TraverseAttr ''key''] hclFile;
          hclFile = SetAttributeTraversal contentBlockBody ''crn''
             [TraverseRoot ''fields'', TraverseAttr ''value''] hclFile
      in hclFile)"

definition createTerraformMain ::
  "(string \<Rightarrow> string) \<Rightarrow> (node list \<Rightarrow> string) \<Rightarrow> world \<Rightarrow> panic + world" where
  "createTerraformMain NormalizeString Bytes w =
     (case makeDir tfDir w of
        Inl p \<Rightarrow> Inl p
      | Inr w1 \<Rightarrow>
          (case createFile tfMainFileName w1 of
             Inl p \<Rightarrow> Inl p
           | Inr (tfFile, w2) \<Rightarrow>
               Inr (snd (os_Write tfFile (Bytes (main_document NormalizeString w2)) w2))))"

text \<open>
  \<^verbatim>\<open>
  func main() {
      createTerraformLocals()
      createTerraformMain()
  }
  \<close>
\<close>

definition main ::
  "(string \<Rightarrow> string) \<Rightarrow> (node list \<Rightarrow> string) \<Rightarrow> world \<Rightarrow> panic + world" where
  "main NormalizeString Bytes w =
     (case createTerraformLocals Bytes w of
        Inl p \<Rightarrow> Inl p
      | Inr w' \<Rightarrow> createTerraformMain NormalizeString Bytes w')"

section \<open>What the loops compute, in closed form\<close>

text \<open>
  The description of the Locals Emitter: for each entry, five field-name/value pairs
  are synthesized from the random source (the name from one draw, the value from the
  next) and collected into a map. \<open>field_pair src k\<close> is the pair synthesized from the
  draws \<open>k\<close> and \<open>k + 1\<close>; \<open>assign_all ps m\<close> assigns the pairs \<open>ps\<close> to the map \<open>m\<close>
  in order; \<open>crn_fields src k\<close> is the map collected from the ten draws that start at
  \<open>k\<close>. The loops of the source are proved equal to them below.
\<close>

definition field_pair :: "(nat \<Rightarrow> nat) \<Rightarrow> nat \<Rightarrow> string \<times> cty_value" where
  "field_pair src k =
     (''field-'' @ Sprint_int (src k),
      StringVal (''crn:v1:bluemix:'' @ Sprint_int (src (Suc k))))"

definition assign_all :: "(string \<times> 'v) list \<Rightarrow> (string \<times> 'v) list \<Rightarrow> (string \<times> 'v) list" where
  "assign_all ps m = foldl (\<lambda>m (k, v). map_assign k v m) m ps"

definition crn_fields :: "(nat \<Rightarrow> nat) \<Rightarrow> nat \<Rightarrow> (string \<times> cty_value) list" where
  "crn_fields src k = assign_all (map (\<lambda>j. field_pair src (k + 2 * j)) [0..<5]) []"

definition secret_entry :: "(nat \<Rightarrow> nat) \<Rightarrow> nat \<Rightarrow> nat \<Rightarrow> string \<times> cty_value" where
  "secret_entry src k i =
     (''secret-'' @ Sprint_int i, ObjectVal [(''fields'', ObjectVal (crn_fields src k))])"

text \<open>The five draws that name the fields of entry \<open>i\<close> in a run that starts in \<open>w\<close>.\<close>

definition key_draws :: "world \<Rightarrow> nat \<Rightarrow> nat list" where
  "key_draws w i = map (\<lambda>j. rand_source w (rand_calls w + 10 * i + 2 * j)) [0..<5]"

section \<open>Example worlds\<close>

text \<open>
  A serializer for the examples: the outline of a document, names only. The theorems
  hold for every serializer.
\<close>

fun node_outline :: "node \<Rightarrow> string" where
  "node_outline (Attribute n e) = n @ ''; ''"
| "node_outline (Block t ls b) = t @ '' { '' @ concat (map node_outline b) @ ''} ''"

definition outline :: "node list \<Rightarrow> string" where
  "outline b = concat (map node_outline b)"

text \<open>
  A normalisation for the examples. The letter e followed by the combining acute
  accent U+0301 (the bytes 65 CC 81 in UTF-8) is not in normal form: NFC composes the
  two into U+00E9 (the bytes C3 A9). \<open>sample_nfc\<close> does that to this one string and
  leaves every other string as it is; it is what NFC does on the strings of the
  examples (that string, ASCII text and the empty string). The theorems hold for
  every normalisation.
\<close>

definition sample_nfc :: "string \<Rightarrow> string" where
  "sample_nfc v =
     (if v = [CHR 0x65, CHR 0xCC, CHR 0x81] then [CHR 0xC3, CHR 0xA9] else v)"

text \<open>Two random sources: one whose draws are all different, one that repeats a draw.\<close>

definition counting_source :: "nat \<Rightarrow> nat" where
  "counting_source k = k"

definition repeating_source :: "nat \<Rightarrow> nat" where
  "repeating_source k = (if k = 2 then 0 else k)"

text \<open>
  \<open>fresh_world\<close>: an empty working directory, both variables set. \<open>rerun_world\<close>: the
  directory and both files are there from an earlier run, with long contents, and the
  random source is another one. \<open>unset_world\<close>: neither variable is set.
  \<open>decomposed_world\<close>: \<^verbatim>\<open>CLUSTER_ID\<close> is e followed by U+0301. The others are one
  of these with one thing changed.
\<close>

definition fresh_world :: world where
  "fresh_world =
     \<lparr>nodes = Map.empty, open_files = Map.empty, next_fd = 3,
      stat_fault = Map.empty, mkdir_fault = Map.empty, create_fault = Map.empty,
      write_limit = Map.empty,
      environ = [''CLUSTER_ID'' \<mapsto> ''prod-1234'', ''NAMESPACE'' \<mapsto> ''ns-a''],
      rand_source = counting_source, rand_calls = 0\<rparr>"

definition rerun_world :: world where
  "rerun_world =
     fresh_world
       \<lparr>nodes := [''terraform'' \<mapsto> Directory,
                  ''terraform/locals.tf'' \<mapsto> Regular (replicate 4000 (CHR ''x'')),
                  ''terraform/main.tf'' \<mapsto> Regular (replicate 4000 (CHR ''y''))],
        rand_source := repeating_source\<rparr>"

definition unset_world :: world where
  "unset_world = fresh_world\<lparr>environ := Map.empty\<rparr>"

definition decomposed_world :: world where
  "decomposed_world =
     fresh_world\<lparr>environ := [''CLUSTER_ID'' \<mapsto> [CHR 0x65, CHR 0xCC, CHR 0x81],
                             ''NAMESPACE'' \<mapsto> ''ns-a'']\<rparr>"

definition collision_world :: world where
  "collision_world = fresh_world\<lparr>rand_source := repeating_source\<rparr>"

definition readonly_world :: world where
  "readonly_world = fresh_world\<lparr>mkdir_fault := [''terraform'' \<mapsto> EACCES]\<rparr>"

definition unreadable_world :: world where
  "unreadable_world = fresh_world\<lparr>stat_fault := [''terraform'' \<mapsto> EACCES]\<rparr>"

definition locked_world :: world where
  "locked_world = rerun_world\<lparr>create_fault := [''terraform/locals.tf'' \<mapsto> EACCES]\<rparr>"

section \<open>ensure-directory: \<^verbatim>\<open>makeDir\<close>\<close>

lemmas world_examples =
  fresh_world_def rerun_world_def unset_world_def decomposed_world_def collision_world_def
  readonly_world_def
  unreadable_world_def locked_world_def

lemmas os_calls =
  os_Stat_def os_Mkdir_def os_Create_def parent_error_def dirname_def IsNotExist_def

lemma parent_error_mkdir:
  "parent_error w p = None \<Longrightarrow>
   parent_error (w\<lparr>nodes := (nodes w)(p \<mapsto> Directory)\<rparr>) p = None"
  by (auto simp: parent_error_def split: option.splits inode.splits if_splits)

text \<open>
  Claim C6. \<^verbatim>\<open>makeDir\<close> aborts the process if and only if the stat of the path returns
  an error other than "does not exist"; when the stat says that the path does not
  exist, \<^verbatim>\<open>makeDir\<close> calls \<^verbatim>\<open>os.Mkdir\<close> and returns without aborting, whatever that
  call returns; when the stat succeeds, it leaves the world as it is.
\<close>

theorem makeDir_aborts_iff_stat_error:
  "((\<exists>e. makeDir path w = Inl (Panic e)) \<longleftrightarrow>
      (\<exists>e. os_Stat path w = Inl e \<and> \<not> IsNotExist e)) \<and>
   (\<forall>e. os_Stat path w = Inl e \<and> IsNotExist e \<longrightarrow>
      makeDir path w = Inr (snd (os_Mkdir path (or os_ModeDir 493) w))) \<and>
   (\<forall>info. os_Stat path w = Inr info \<longrightarrow> makeDir path w = Inr w)"
  by (auto simp: makeDir_def split: sum.splits)

theorem makeDir_aborts_iff_stat_error_witness:
  "os_Stat ''terraform'' unreadable_world = Inl EACCES \<and> \<not> IsNotExist EACCES \<and>
   (\<exists>e. makeDir ''terraform'' unreadable_world = Inl (Panic e)) \<and>
   os_Stat ''terraform'' fresh_world = Inl ENOENT \<and> IsNotExist ENOENT \<and>
   makeDir ''terraform'' fresh_world =
     Inr (fresh_world\<lparr>nodes := [''terraform'' \<mapsto> Directory]\<rparr>) \<and>
   os_Stat ''terraform'' rerun_world = Inr Directory \<and>
   makeDir ''terraform'' rerun_world = Inr rerun_world"
proof -
  have s1: "os_Stat ''terraform'' unreadable_world = Inl EACCES"
    by (simp add: os_calls world_examples)
  have s2: "os_Stat ''terraform'' fresh_world = Inl ENOENT"
    by (simp add: os_calls world_examples)
  have s3: "os_Stat ''terraform'' rerun_world = Inr Directory"
    by (simp add: os_calls world_examples)
  have m2: "snd (os_Mkdir ''terraform'' (or os_ModeDir 493) fresh_world) =
      fresh_world\<lparr>nodes := [''terraform'' \<mapsto> Directory]\<rparr>"
    by (simp add: os_calls world_examples)
  have n1: "\<not> IsNotExist EACCES" and n2: "IsNotExist ENOENT"
    by (simp_all add: IsNotExist_def)
  from makeDir_aborts_iff_stat_error [of "''terraform''" unreadable_world] s1 n1
  have a: "\<exists>e. makeDir ''terraform'' unreadable_world = Inl (Panic e)" by blast
  from makeDir_aborts_iff_stat_error [of "''terraform''" fresh_world] s2 n2 m2
  have b: "makeDir ''terraform'' fresh_world =
      Inr (fresh_world\<lparr>nodes := [''terraform'' \<mapsto> Directory]\<rparr>)" by simp
  from makeDir_aborts_iff_stat_error [of "''terraform''" rerun_world] s3
  have c: "makeDir ''terraform'' rerun_world = Inr rerun_world" by blast
  from s1 n1 a s2 n2 b s3 c show ?thesis by blast
qed

text \<open>
  Claim C7. \<^verbatim>\<open>makeDir\<close> is idempotent: when a call on a path returns, a second call on
  the same path, made in the world the first one left, returns as well and leaves
  that world as it is.
\<close>

theorem makeDir_idempotent:
  "makeDir path w = Inr w' \<Longrightarrow> makeDir path w' = Inr w'"
  using parent_error_mkdir [of w path]
  by (auto simp: makeDir_def os_Stat_def os_Mkdir_def IsNotExist_def
           split: sum.splits option.splits if_splits)

theorem makeDir_idempotent_witness:
  "makeDir ''terraform'' fresh_world =
     Inr (fresh_world\<lparr>nodes := [''terraform'' \<mapsto> Directory]\<rparr>) \<and>
   makeDir ''terraform'' (fresh_world\<lparr>nodes := [''terraform'' \<mapsto> Directory]\<rparr>) =
     Inr (fresh_world\<lparr>nodes := [''terraform'' \<mapsto> Directory]\<rparr>)"
proof -
  have first: "makeDir ''terraform'' fresh_world =
      Inr (fresh_world\<lparr>nodes := [''terraform'' \<mapsto> Directory]\<rparr>)"
    by (simp add: makeDir_def os_calls world_examples)
  from first makeDir_idempotent [OF first] show ?thesis by simp
qed

text \<open>
  Claim C2. The claim is that every error of the directory-creation call inside
  \<^verbatim>\<open>makeDir\<close> aborts the process at once. The code drops what \<^verbatim>\<open>os.Mkdir\<close> returns:
  in a working directory where the directory is absent and may not be created, the
  stat says "does not exist", \<^verbatim>\<open>os.Mkdir\<close> returns \<open>EACCES\<close>, and \<^verbatim>\<open>makeDir\<close> returns
  as if nothing had happened. The process stops only later, in \<^verbatim>\<open>createFile\<close>, with
  the error of \<^verbatim>\<open>os.Create\<close>.
\<close>

theorem makeDir_drops_mkdir_error:
  "os_Stat ''terraform'' readonly_world = Inl ENOENT \<and>
   fst (os_Mkdir ''terraform'' (or os_ModeDir 493) readonly_world) = Some EACCES \<and>
   makeDir ''terraform'' readonly_world = Inr readonly_world \<and>
   createTerraformLocals Bytes readonly_world = Inl (Panic ENOENT)"
  by (simp add: createTerraformLocals_def createFile_def tfDir_def tfLocalsFileName_def
        makeDir_def os_calls world_examples)

section \<open>The Locals Emitter: the document\<close>

subsection \<open>The decimal numeral of a number determines the number\<close>

lemma digit_inj: "a < 10 \<Longrightarrow> b < 10 \<Longrightarrow> digit a = digit b \<Longrightarrow> a = b"
proof -
  have d: "distinct ''0123456789''" by simp
  assume "a < 10" "b < 10" "digit a = digit b"
  then show ?thesis using d by (simp add: digit_def nth_eq_iff_index_eq del: distinct.simps)
qed

lemma Sprint_int_nonempty: "Sprint_int n \<noteq> []"
  by (subst Sprint_int.simps) simp

lemma Sprint_int_last: "last (Sprint_int n) = digit (n mod 10)"
  by (subst Sprint_int.simps) simp

lemma Sprint_int_butlast:
  "butlast (Sprint_int n) = (if n < 10 then [] else Sprint_int (n div 10))"
  by (subst Sprint_int.simps) simp

lemma Sprint_int_inj: "Sprint_int m = Sprint_int n \<Longrightarrow> m = n"
proof (induction m arbitrary: n rule: less_induct)
  case (less m)
  from less.prems have l: "digit (m mod 10) = digit (n mod 10)"
    by (metis Sprint_int_last)
  then have md: "m mod 10 = n mod 10" by (rule digit_inj[rotated 2]) simp_all
  from less.prems have b: "(if m < 10 then [] else Sprint_int (m div 10)) =
      (if n < 10 then [] else Sprint_int (n div 10))"
    by (metis Sprint_int_butlast)
  show ?case
  proof (cases "m < 10")
    case True
    with b have "n < 10" using Sprint_int_nonempty[of "n div 10"] by (auto split: if_splits)
    with True md show ?thesis by simp
  next
    case False
    with b have n: "\<not> n < 10" and e: "Sprint_int (m div 10) = Sprint_int (n div 10)"
      using Sprint_int_nonempty[of "m div 10"] by (auto split: if_splits)
    from False have "m div 10 < m" by simp
    from less.IH[OF this e] have "m div 10 = n div 10" .
    with md show ?thesis by (metis div_mult_mod_eq)
  qed
qed

subsection \<open>Assignment to a Go map\<close>

lemma map_assign_keys: "fst ` set (map_assign k v m) = insert k (fst ` set m)"
proof (induction m)
  case Nil
  show ?case by simp
next
  case (Cons a m)
  obtain k' v' where a: "a = (k', v')" by (cases a)
  show ?case using Cons by (cases "k' = k") (auto simp: a)
qed

lemma map_assign_distinct: "distinct (map fst m) \<Longrightarrow> distinct (map fst (map_assign k v m))"
  by (induction m) (auto simp: map_assign_keys)

lemma map_assign_fresh: "k \<notin> fst ` set m \<Longrightarrow> map_assign k v m = m @ [(k, v)]"
  by (induction m) auto

lemma map_of_map_assign: "map_of (map_assign k v m) = (map_of m)(k \<mapsto> v)"
  by (induction m) (auto simp: fun_eq_iff)

lemma assign_all_Nil [simp]: "assign_all [] m = m"
  by (simp add: assign_all_def)

lemma assign_all_Cons [simp]:
  "assign_all (p # ps) m = assign_all ps (map_assign (fst p) (snd p) m)"
  by (simp add: assign_all_def split: prod.splits)

lemma assign_all_keys: "fst ` set (assign_all ps m) = fst ` set ps \<union> fst ` set m"
  by (induction ps arbitrary: m) (simp_all add: map_assign_keys)

lemma assign_all_distinct: "distinct (map fst m) \<Longrightarrow> distinct (map fst (assign_all ps m))"
  by (induction ps arbitrary: m) (auto simp: map_assign_distinct)

lemma assign_all_length: "length (assign_all ps []) = card (set (map fst ps))"
proof -
  have "distinct (map fst (assign_all ps []))" by (simp add: assign_all_distinct)
  then have "card (set (map fst (assign_all ps []))) = length (map fst (assign_all ps []))"
    by (rule distinct_card)
  then show ?thesis by (simp add: assign_all_keys)
qed

lemma map_of_assign_all: "map_of (assign_all ps m) = map_of m ++ map_of (rev ps)"
  by (induction ps arbitrary: m) (auto simp: map_of_map_assign fun_eq_iff map_add_def split: option.splits)

subsection \<open>The loops\<close>

lemma upt_shift: "map f [0..<Suc n] = f 0 # map (\<lambda>j. f (Suc j)) [0..<n]"
  by (simp only: upt_conv_Cons[of 0 "Suc n"] map_Suc_upt[symmetric] list.map map_map o_def) 

lemma fields_loop_done: "\<not> i < 5 \<Longrightarrow> fields_loop i m w = (m, w)"
  by (subst fields_loop.simps) simp

lemma fields_loop_step:
  "i < 5 \<Longrightarrow> fields_loop i m w =
     fields_loop (Suc i)
       (map_assign (fst (field_pair (rand_source w) (rand_calls w)))
          (snd (field_pair (rand_source w) (rand_calls w))) m)
       (w\<lparr>rand_calls := Suc (Suc (rand_calls w))\<rparr>)"
  by (subst fields_loop.simps) (simp add: rand_Int_def Sprint_string_def field_pair_def)

lemma fields_loop_closed:
  "fields_loop i m w =
     (assign_all (map (\<lambda>j. field_pair (rand_source w) (rand_calls w + 2 * j)) [0..<5 - i]) m,
      w\<lparr>rand_calls := rand_calls w + 2 * (5 - i)\<rparr>)"
proof (induction "5 - i" arbitrary: i m w)
  case 0
  then show ?case by (simp add: fields_loop_done)
next
  case (Suc n)
  then have lt: "i < 5" and n: "n = 5 - Suc i" and n': "5 - i = Suc n" by arith+
  show ?case
    unfolding fields_loop_step[OF lt] Suc.hyps(1)[OF n] n' n[symmetric] upt_shift
    by simp
qed

lemma fields_loop_0:
  "fields_loop 0 [] w =
     (crn_fields (rand_source w) (rand_calls w), w\<lparr>rand_calls := rand_calls w + 10\<rparr>)"
  by (simp add: fields_loop_closed crn_fields_def)

lemma secrets_loop_done: "\<not> i < 5 \<Longrightarrow> secrets_loop i m w = (m, w)"
  by (subst secrets_loop.simps) simp

lemma secrets_loop_step:
  "i < 5 \<Longrightarrow> secrets_loop i m w =
     secrets_loop (Suc i)
       (map_assign (fst (secret_entry (rand_source w) (rand_calls w) i))
          (snd (secret_entry (rand_source w) (rand_calls w) i)) m)
       (w\<lparr>rand_calls := rand_calls w + 10\<rparr>)"
  by (subst secrets_loop.simps) (simp add: fields_loop_0 secret_entry_def)

lemma secrets_loop_closed:
  "secrets_loop i m w =
     (assign_all
        (map (\<lambda>k. secret_entry (rand_source w) (rand_calls w + 10 * k) (i + k)) [0..<5 - i]) m,
      w\<lparr>rand_calls := rand_calls w + 10 * (5 - i)\<rparr>)"
proof (induction "5 - i" arbitrary: i m w)
  case 0
  then show ?case by (simp add: secrets_loop_done)
next
  case (Suc n)
  then have lt: "i < 5" and n: "n = 5 - Suc i" and n': "5 - i = Suc n" by arith+
  show ?case
    unfolding secrets_loop_step[OF lt] Suc.hyps(1)[OF n] n' n[symmetric] upt_shift
    by (simp add: add.commute add.left_commute)
qed

lemma upt_0_5: "[0..<5] = [0, 1, 2, 3, 4]"
  by (simp add: upt_conv_Cons)

lemma Sprint_int_digits:
  "Sprint_int 0 = ''0''" "Sprint_int 1 = ''1''" "Sprint_int (Suc 0) = ''1''" "Sprint_int 2 = ''2''"
  "Sprint_int 3 = ''3''" "Sprint_int 4 = ''4''"
  by (simp_all add: Sprint_int.simps digit_def)

lemma secrets_loop_0:
  "secrets_loop 0 [] w =
     ([(''secret-0'', ObjectVal [(''fields'', ObjectVal (crn_fields (rand_source w) (rand_calls w)))]),
       (''secret-1'', ObjectVal [(''fields'', ObjectVal (crn_fields (rand_source w) (rand_calls w + 10)))]),
       (''secret-2'', ObjectVal [(''fields'', ObjectVal (crn_fields (rand_source w) (rand_calls w + 20)))]),
       (''secret-3'', ObjectVal [(''fields'', ObjectVal (crn_fields (rand_source w) (rand_calls w + 30)))]),
       (''secret-4'', ObjectVal [(''fields'', ObjectVal (crn_fields (rand_source w) (rand_calls w + 40)))])],
      w\<lparr>rand_calls := rand_calls w + 50\<rparr>)"
  by (simp add: secrets_loop_closed secret_entry_def upt_0_5 Sprint_int_digits)

lemma locals_document_closed:
  "locals_document w =
    ([Block ''locals'' []
       [Attribute ''secrets'' (ValueExpr (ObjectVal
     [(''secret-0'', ObjectVal [(''fields'', ObjectVal (crn_fields (rand_source w) (rand_calls w)))]),
       (''secret-1'', ObjectVal [(''fields'', ObjectVal (crn_fields (rand_source w) (rand_calls w + 10)))]),
       (''secret-2'', ObjectVal [(''fields'', ObjectVal (crn_fields (rand_source w) (rand_calls w + 20)))]),
       (''secret-3'', ObjectVal [(''fields'', ObjectVal (crn_fields (rand_source w) (rand_calls w + 30)))]),
       (''secret-4'', ObjectVal [(''fields'', ObjectVal (crn_fields (rand_source w) (rand_calls w + 40)))])]))]],
      w\<lparr>rand_calls := rand_calls w + 50\<rparr>)"
  by (simp add: locals_document_def secrets_loop_0 NewEmptyFile_def AppendNewBlock_def SetAttributeValue_def)

lemma field_key_inj: "inj (\<lambda>n. ''field-'' @ Sprint_int n)"
  by (rule injI) (auto dest: Sprint_int_inj)

lemma crn_fields_keys:
  "map fst (map (\<lambda>j. field_pair src (k + 2 * j)) [0..<5]) =
   map (\<lambda>n. ''field-'' @ Sprint_int n) (map (\<lambda>j. src (k + 2 * j)) [0..<5])"
  by (simp add: field_pair_def)

lemma crn_fields_distinct: "distinct (map fst (crn_fields src k))"
  by (simp add: crn_fields_def assign_all_distinct)

lemma crn_fields_length:
  "length (crn_fields src k) = card (set (map (\<lambda>j. src (k + 2 * j)) [0..<5]))"
proof -
  have "length (crn_fields src k) =
      card (set (map (\<lambda>n. ''field-'' @ Sprint_int n) (map (\<lambda>j. src (k + 2 * j)) [0..<5])))"
    unfolding crn_fields_def assign_all_length crn_fields_keys ..
  also have "\<dots> = card ((\<lambda>n. ''field-'' @ Sprint_int n) ` set (map (\<lambda>j. src (k + 2 * j)) [0..<5]))"
    by (simp only: set_map)
  also have "\<dots> = card (set (map (\<lambda>j. src (k + 2 * j)) [0..<5]))"
    by (rule card_image) (rule inj_on_subset[OF field_key_inj subset_UNIV])
  finally show ?thesis .
qed

lemma crn_fields_bounds:
  "1 \<le> length (crn_fields src k) \<and> length (crn_fields src k) \<le> 5 \<and>
   (length (crn_fields src k) = 5 \<longleftrightarrow> distinct (map (\<lambda>j. src (k + 2 * j)) [0..<5]))"
proof -
  let ?xs = "map (\<lambda>j. src (k + 2 * j)) [0..<5]"
  have len: "length ?xs = 5" by simp
  have ne: "set ?xs \<noteq> {}" by (simp del: set_map)
  have "0 < card (set ?xs)" using ne by (simp add: card_gt_0_iff del: set_map)
  moreover have "card (set ?xs) \<le> 5" using card_length[of ?xs] len by (simp del: set_map)
  moreover have "card (set ?xs) = 5 \<longleftrightarrow> distinct ?xs"
    using card_distinct[of ?xs] distinct_card[of ?xs] len by (auto simp del: set_map)
  ultimately show ?thesis unfolding crn_fields_length by (simp del: set_map)
qed

lemma crn_fields_map_of:
  "map_of (crn_fields src k) = map_of (rev (map (\<lambda>j. field_pair src (k + 2 * j)) [0..<5]))"
  by (simp only: crn_fields_def map_of_assign_all map_of.simps empty_map_add)


lemma crn_collision:
  "crn_fields repeating_source 0 =
     [(''field-0'', StringVal ''crn:v1:bluemix:3''), (''field-4'', StringVal ''crn:v1:bluemix:5''),
      (''field-6'', StringVal ''crn:v1:bluemix:7''), (''field-8'', StringVal ''crn:v1:bluemix:9'')]"
  by (simp add: crn_fields_def upt_0_5 field_pair_def repeating_source_def Sprint_int.simps digit_def)


lemma key_draws_fresh: "distinct (key_draws fresh_world 0)"
  by (simp add: key_draws_def fresh_world_def counting_source_def upt_0_5)


text \<open>
  Claim C3. In every run the document of the Locals Emitter is one block \<^verbatim>\<open>locals\<close>
  with no labels, whose body is the one attribute \<^verbatim>\<open>secrets\<close>, bound to an object
  value (not a string): its keys are \<^verbatim>\<open>secret-0\<close> to \<^verbatim>\<open>secret-4\<close>, and each maps to an
  object with the one key \<^verbatim>\<open>fields\<close>, which holds the map collected from that entry's
  five synthesized pairs (entry \<open>i\<close> uses the ten draws from \<open>10 * i\<close> on). As a map,
  every synthesized name is a key, and a name maps to the value of the last pair that
  carries it.
\<close>

theorem locals_document_shape:
  "fst (locals_document w) =
     [Block ''locals'' []
        [Attribute ''secrets'' (ValueExpr (ObjectVal
           [(''secret-0'', ObjectVal [(''fields'', ObjectVal (crn_fields (rand_source w) (rand_calls w)))]),
            (''secret-1'', ObjectVal [(''fields'', ObjectVal (crn_fields (rand_source w) (rand_calls w + 10)))]),
            (''secret-2'', ObjectVal [(''fields'', ObjectVal (crn_fields (rand_source w) (rand_calls w + 20)))]),
            (''secret-3'', ObjectVal [(''fields'', ObjectVal (crn_fields (rand_source w) (rand_calls w + 30)))]),
            (''secret-4'', ObjectVal [(''fields'', ObjectVal (crn_fields (rand_source w) (rand_calls w + 40)))])]))]] \<and>
   map_of (crn_fields (rand_source w) k) =
     map_of (rev (map (\<lambda>j. field_pair (rand_source w) (k + 2 * j)) [0..<5])) \<and>
   fst ` set (crn_fields (rand_source w) k) =
     fst ` set (map (\<lambda>j. field_pair (rand_source w) (k + 2 * j)) [0..<5])"
  by (simp only: locals_document_closed fst_conv crn_fields_map_of simp_thms)
     (simp add: crn_fields_def assign_all_keys)

text \<open>
  Claim C1, as amended. The claim says that every entry has exactly 5 field pairs
  whatever the random source returns. The field names come from the random source and
  nothing keeps them apart: a name drawn twice is assigned twice to the same key. What
  holds in every run: the Secrets Mapping has exactly 5 entries, with different names;
  every entry's Fields Map has at least 1 and at most 5 pairs, with different names;
  and it has exactly 5 if and only if the five draws that name the entry's fields are
  pairwise different.
\<close>

theorem secrets_cardinality:
  "\<exists>secretsMap.
     fst (locals_document w) =
       [Block ''locals'' [] [Attribute ''secrets'' (ValueExpr (ObjectVal secretsMap))]] \<and>
     length secretsMap = 5 \<and> distinct (map fst secretsMap) \<and>
     (\<forall>i<5. \<exists>crnMap.
        secretsMap ! i =
          (''secret-'' @ Sprint_int i, ObjectVal [(''fields'', ObjectVal crnMap)]) \<and>
        distinct (map fst crnMap) \<and> 1 \<le> length crnMap \<and> length crnMap \<le> 5 \<and>
        (length crnMap = 5 \<longleftrightarrow> distinct (key_draws w i)))"
proof -
  have five: "i < 5 \<Longrightarrow> i = 0 \<or> i = 1 \<or> i = 2 \<or> i = 3 \<or> i = 4" for i :: nat by arith
  have kd: "key_draws w i = map (\<lambda>j. rand_source w ((rand_calls w + 10 * i) + 2 * j)) [0..<5]" for i
    by (simp add: key_draws_def)
  have b: "distinct (map fst (crn_fields (rand_source w) (rand_calls w + 10 * i))) \<and>
      1 \<le> length (crn_fields (rand_source w) (rand_calls w + 10 * i)) \<and>
      length (crn_fields (rand_source w) (rand_calls w + 10 * i)) \<le> 5 \<and>
      (length (crn_fields (rand_source w) (rand_calls w + 10 * i)) = 5 \<longleftrightarrow>
         distinct (key_draws w i))" for i
    unfolding kd using crn_fields_bounds[of "rand_source w" "rand_calls w + 10 * i"]
      crn_fields_distinct[of "rand_source w" "rand_calls w + 10 * i"] by blast
  show ?thesis
    apply (simp only: locals_document_closed fst_conv)
    apply (intro exI conjI)
       apply (rule refl)
      apply simp
     apply simp
    apply (intro allI impI)
    subgoal for i
      using five[of i] b[of 0] b[of 1] b[of 2] b[of 3] b[of 4]
      by (auto simp: Sprint_int_digits)
    done
qed

theorem secrets_cardinality_witness:
  "\<exists>secretsMap crnMap.
     fst (locals_document fresh_world) =
       [Block ''locals'' [] [Attribute ''secrets'' (ValueExpr (ObjectVal secretsMap))]] \<and>
     length secretsMap = 5 \<and>
     secretsMap ! 0 = (''secret-0'', ObjectVal [(''fields'', ObjectVal crnMap)]) \<and>
     distinct (key_draws fresh_world 0) \<and> length crnMap = 5"
proof -
  from secrets_cardinality [of fresh_world] obtain secretsMap where
    doc: "fst (locals_document fresh_world) =
       [Block ''locals'' [] [Attribute ''secrets'' (ValueExpr (ObjectVal secretsMap))]]"
    and len: "length secretsMap = 5"
    and each: "\<forall>i<5. \<exists>crnMap.
        secretsMap ! i =
          (''secret-'' @ Sprint_int i, ObjectVal [(''fields'', ObjectVal crnMap)]) \<and>
        distinct (map fst crnMap) \<and> 1 \<le> length crnMap \<and> length crnMap \<le> 5 \<and>
        (length crnMap = 5 \<longleftrightarrow> distinct (key_draws fresh_world i))"
    by blast
  have "(0::nat) < 5" by simp
  with each have "\<exists>crnMap.
        secretsMap ! 0 =
          (''secret-'' @ Sprint_int 0, ObjectVal [(''fields'', ObjectVal crnMap)]) \<and>
        (length crnMap = 5 \<longleftrightarrow> distinct (key_draws fresh_world 0))" by blast
  then obtain crnMap where
    e0: "secretsMap ! 0 = (''secret-0'', ObjectVal [(''fields'', ObjectVal crnMap)])"
    and l0: "length crnMap = 5 \<longleftrightarrow> distinct (key_draws fresh_world 0)"
    by (auto simp: Sprint_int_digits)
  from doc len e0 l0 key_draws_fresh show ?thesis by blast
qed


text \<open>
  Claim C1 as stated fails when the random source repeats a draw: here the first and
  the third draw are both 0, the second assignment to \<^verbatim>\<open>field-0\<close> replaces the first,
  and the entry \<^verbatim>\<open>secret-0\<close> is written with 4 field pairs.
\<close>

theorem secrets_cardinality_counterexample:
  "fst (locals_document collision_world) =
     [Block ''locals'' []
        [Attribute ''secrets'' (ValueExpr (ObjectVal
           [(''secret-0'', ObjectVal [(''fields'', ObjectVal
               [(''field-0'', StringVal ''crn:v1:bluemix:3''),
                (''field-4'', StringVal ''crn:v1:bluemix:5''),
                (''field-6'', StringVal ''crn:v1:bluemix:7''),
                (''field-8'', StringVal ''crn:v1:bluemix:9'')])]),
            (''secret-1'', ObjectVal [(''fields'', ObjectVal
               [(''field-10'', StringVal ''crn:v1:bluemix:11''),
                (''field-12'', StringVal ''crn:v1:bluemix:13''),
                (''field-14'', StringVal ''crn:v1:bluemix:15''),
                (''field-16'', StringVal ''crn:v1:bluemix:17''),
                (''field-18'', StringVal ''crn:v1:bluemix:19'')])]),
            (''secret-2'', ObjectVal [(''fields'', ObjectVal
               [(''field-20'', StringVal ''crn:v1:bluemix:21''),
                (''field-22'', StringVal ''crn:v1:bluemix:23''),
                (''field-24'', StringVal ''crn:v1:bluemix:25''),
                (''field-26'', StringVal ''crn:v1:bluemix:27''),
                (''field-28'', StringVal ''crn:v1:bluemix:29'')])]),
            (''secret-3'', ObjectVal [(''fields'', ObjectVal
               [(''field-30'', StringVal ''crn:v1:bluemix:31''),
                (''field-32'', StringVal ''crn:v1:bluemix:33''),
                (''field-34'', StringVal ''crn:v1:bluemix:35''),
                (''field-36'', StringVal ''crn:v1:bluemix:37''),
                (''field-38'', StringVal ''crn:v1:bluemix:39'')])]),
            (''secret-4'', ObjectVal [(''fields'', ObjectVal
               [(''field-40'', StringVal ''crn:v1:bluemix:41''),
                (''field-42'', StringVal ''crn:v1:bluemix:43''),
                (''field-44'', StringVal ''crn:v1:bluemix:45''),
                (''field-46'', StringVal ''crn:v1:bluemix:47''),
                (''field-48'', StringVal ''crn:v1:bluemix:49'')])])]))]]"
  by (simp add: locals_document_closed collision_world_def fresh_world_def crn_collision
        crn_fields_def upt_0_5 field_pair_def repeating_source_def Sprint_int.simps digit_def)

section \<open>The Resource Emitter and the files\<close>

subsection \<open>The document of the Resource Emitter\<close>

lemma main_document_closed:
  "main_document nfc w =
     [Block ''resource'' [''ibm_container_ingress_secret_opaque'', ''ingress-secret'']
        [Attribute ''for_each'' (TraversalExpr [TraverseRoot ''local'', TraverseAttr ''secrets'']),
         Attribute ''cluster'' (ValueExpr (StringVal (nfc (os_Getenv ''CLUSTER_ID'' w)))),
         Attribute ''secret_name'' (TraversalExpr [TraverseRoot ''each'', TraverseAttr ''key'']),
         Attribute ''secret_namespace'' (ValueExpr (StringVal (nfc (os_Getenv ''NAMESPACE'' w)))),
         Block ''dynamic'' [''fields'']
           [Attribute ''for_each''
              (TraversalExpr [TraverseRoot ''local.secrets[each.key]'', TraverseAttr ''fields'']),
            Block ''content'' []
              [Attribute ''field_name'' (TraversalExpr [TraverseRoot ''fields'', TraverseAttr ''key'']),
               Attribute ''crn'' (TraversalExpr [TraverseRoot ''fields'', TraverseAttr ''value''])]]]]"
  by (simp add: main_document_def NewEmptyFile_def AppendNewBlock_def SetAttributeValue_def
        SetAttributeTraversal_def cty_StringVal_def)

subsection \<open>What each call does to the world\<close>

lemma makeDir_effect:
  "makeDir p w = Inr w' \<Longrightarrow>
     w' = w \<or> (nodes w p = None \<and> w' = w\<lparr>nodes := (nodes w)(p \<mapsto> Directory)\<rparr>)"
  by (auto simp: makeDir_def os_Stat_def os_Mkdir_def split: sum.splits option.splits if_splits)

lemma createFile_effect:
  "createFile name w = Inr (fd, w') \<Longrightarrow>
     fd = next_fd w \<and>
     w' = w\<lparr>nodes := (nodes w)(tfDir @ ''/'' @ name \<mapsto> Regular []),
            open_files := (open_files w)(next_fd w \<mapsto>
               \<lparr>of_path = tfDir @ ''/'' @ name, of_offset = 0, of_writable = True\<rparr>),
            next_fd := Suc (next_fd w)\<rparr>"
  by (auto simp: createFile_def os_Create_def split: sum.splits option.splits inode.splits)

lemma write_fresh:
  "open_files w fd = Some \<lparr>of_path = p, of_offset = 0, of_writable = True\<rparr> \<Longrightarrow>
   nodes w p = Some (Regular []) \<Longrightarrow>
   snd (os_Write fd b w) =
     w\<lparr>nodes := (nodes w)(p \<mapsto> Regular (take (write_count w p (length b)) b)),
       open_files := (open_files w)(fd \<mapsto>
         \<lparr>of_path = p, of_offset = write_count w p (length b), of_writable = True\<rparr>)\<rparr>"
  by (simp add: os_Write_def Let_def)

lemma createFile_locals:
  "createFile tfLocalsFileName w = Inr (fd, w') \<Longrightarrow>
     fd = next_fd w \<and>
     w' = w\<lparr>nodes := (nodes w)(''terraform/locals.tf'' \<mapsto> Regular []),
            open_files := (open_files w)(next_fd w \<mapsto>
               \<lparr>of_path = ''terraform/locals.tf'', of_offset = 0, of_writable = True\<rparr>),
            next_fd := Suc (next_fd w)\<rparr>"
  by (drule createFile_effect) (simp add: tfDir_def tfLocalsFileName_def)

lemma createFile_main:
  "createFile tfMainFileName w = Inr (fd, w') \<Longrightarrow>
     fd = next_fd w \<and>
     w' = w\<lparr>nodes := (nodes w)(''terraform/main.tf'' \<mapsto> Regular []),
            open_files := (open_files w)(next_fd w \<mapsto>
               \<lparr>of_path = ''terraform/main.tf'', of_offset = 0, of_writable = True\<rparr>),
            next_fd := Suc (next_fd w)\<rparr>"
  by (drule createFile_effect) (simp add: tfDir_def tfMainFileName_def)

lemma locals_document_rand:
  "rand_source w' = rand_source w \<Longrightarrow> rand_calls w' = rand_calls w \<Longrightarrow>
   fst (locals_document w') = fst (locals_document w)"
  by (simp add: locals_document_closed)

lemma locals_document_world: "snd (locals_document w) = w\<lparr>rand_calls := rand_calls w + 50\<rparr>"
  by (simp add: locals_document_closed)

lemma main_document_env: "environ w' = environ w \<Longrightarrow> main_document nfc w' = main_document nfc w"
  by (simp add: main_document_closed os_Getenv_def)

lemma write_count_limit: "write_limit w' = write_limit w \<Longrightarrow> write_count w' p n = write_count w p n"
  by (simp add: write_count_def)

lemma createTerraformLocals_effect:
  assumes "createTerraformLocals Bytes w = Inr w'"
  shows "\<exists>w1. makeDir ''terraform'' w = Inr w1 \<and>
     w' = w1\<lparr>nodes := (nodes w1)(''terraform/locals.tf'' \<mapsto>
               Regular (take (write_count w ''terraform/locals.tf''
                  (length (Bytes (fst (locals_document w))))) (Bytes (fst (locals_document w))))),
             open_files := (open_files w1)(next_fd w1 \<mapsto>
               \<lparr>of_path = ''terraform/locals.tf'',
                of_offset = write_count w ''terraform/locals.tf''
                  (length (Bytes (fst (locals_document w)))),
                of_writable = True\<rparr>),
             next_fd := Suc (next_fd w1),
             rand_calls := rand_calls w1 + 50\<rparr>"
proof -
  from assms obtain w1 fd w2 where
    m: "makeDir ''terraform'' w = Inr w1" and
    c: "createFile tfLocalsFileName w1 = Inr (fd, w2)" and
    r: "w' = snd (os_Write fd (Bytes (fst (locals_document w2))) (snd (locals_document w2)))"
    by (auto simp: createTerraformLocals_def tfDir_def split: sum.splits prod.splits)
  from makeDir_effect[OF m] have f1: "rand_source w1 = rand_source w" "rand_calls w1 = rand_calls w"
    "write_limit w1 = write_limit w" by auto
  from createFile_locals[OF c] have fd: "fd = next_fd w1" and
    w2: "w2 = w1\<lparr>nodes := (nodes w1)(''terraform/locals.tf'' \<mapsto> Regular []),
            open_files := (open_files w1)(next_fd w1 \<mapsto>
               \<lparr>of_path = ''terraform/locals.tf'', of_offset = 0, of_writable = True\<rparr>),
            next_fd := Suc (next_fd w1)\<rparr>" by simp_all
  from f1 have d: "fst (locals_document w2) = fst (locals_document w)"
    by (intro locals_document_rand) (simp_all add: w2)
  let ?b = "Bytes (fst (locals_document w))"
  let ?w3 = "w2\<lparr>rand_calls := rand_calls w2 + 50\<rparr>"
  have o: "open_files ?w3 fd = Some \<lparr>of_path = ''terraform/locals.tf'', of_offset = 0, of_writable = True\<rparr>"
    by (simp add: w2 fd)
  have n: "nodes ?w3 ''terraform/locals.tf'' = Some (Regular [])"
    by (simp add: w2)
  have wc: "write_count ?w3 ''terraform/locals.tf'' (length ?b) = write_count w ''terraform/locals.tf'' (length ?b)"
    using f1 by (intro write_count_limit) (simp add: w2)
  show ?thesis
    apply (rule exI[of _ w1])
    apply (rule conjI[OF m])
    unfolding r d locals_document_world write_fresh[OF o n] wc
    by (simp add: w2 fd)
qed

lemma createTerraformMain_effect:
  assumes "createTerraformMain nfc Bytes w = Inr w'"
  shows "\<exists>w1. makeDir ''terraform'' w = Inr w1 \<and>
     w' = w1\<lparr>nodes := (nodes w1)(''terraform/main.tf'' \<mapsto>
               Regular (take (write_count w ''terraform/main.tf''
                  (length (Bytes (main_document nfc w)))) (Bytes (main_document nfc w)))),
             open_files := (open_files w1)(next_fd w1 \<mapsto>
               \<lparr>of_path = ''terraform/main.tf'',
                of_offset = write_count w ''terraform/main.tf''
                  (length (Bytes (main_document nfc w))),
                of_writable = True\<rparr>),
             next_fd := Suc (next_fd w1)\<rparr>"
proof -
  from assms obtain w1 fd w2 where
    m: "makeDir ''terraform'' w = Inr w1" and
    c: "createFile tfMainFileName w1 = Inr (fd, w2)" and
    r: "w' = snd (os_Write fd (Bytes (main_document nfc w2)) w2)"
    by (auto simp: createTerraformMain_def tfDir_def split: sum.splits prod.splits)
  from makeDir_effect[OF m] have f1: "environ w1 = environ w" "write_limit w1 = write_limit w" by auto
  from createFile_main[OF c] have fd: "fd = next_fd w1" and
    w2: "w2 = w1\<lparr>nodes := (nodes w1)(''terraform/main.tf'' \<mapsto> Regular []),
            open_files := (open_files w1)(next_fd w1 \<mapsto>
               \<lparr>of_path = ''terraform/main.tf'', of_offset = 0, of_writable = True\<rparr>),
            next_fd := Suc (next_fd w1)\<rparr>" by simp_all
  from f1 have d: "main_document nfc w2 = main_document nfc w"
    by (intro main_document_env) (simp_all add: w2)
  let ?b = "Bytes (main_document nfc w)"
  have o: "open_files w2 fd = Some \<lparr>of_path = ''terraform/main.tf'', of_offset = 0, of_writable = True\<rparr>"
    by (simp add: w2 fd)
  have n: "nodes w2 ''terraform/main.tf'' = Some (Regular [])"
    by (simp add: w2)
  have wc: "write_count w2 ''terraform/main.tf'' (length ?b) = write_count w ''terraform/main.tf'' (length ?b)"
    using f1 by (intro write_count_limit) (simp add: w2)
  show ?thesis
    apply (rule exI[of _ w1])
    apply (rule conjI[OF m])
    unfolding r d write_fresh[OF o n] wc
    by (simp add: w2 fd)
qed

lemma os_Create_ok:
  assumes "create_fault w p = None" "parent_error w p = None" "nodes w p \<noteq> Some Directory"
  shows "\<exists>fd w'. os_Create p w = Inr (fd, w')"
proof (cases "nodes w p")
  case None
  with assms show ?thesis by (simp add: os_Create_def)
next
  case (Some n)
  with assms show ?thesis by (cases n) (simp_all add: os_Create_def)
qed

lemma createFile_ok:
  assumes "create_fault w (tfDir @ ''/'' @ name) = None"
    "parent_error w (tfDir @ ''/'' @ name) = None"
    "nodes w (tfDir @ ''/'' @ name) \<noteq> Some Directory"
  shows "\<exists>fd w'. createFile name w = Inr (fd, w')"
  using os_Create_ok[OF assms] by (auto simp: createFile_def)

lemma main_effect:
  assumes "main nfc Bytes w = Inr w'"
  shows "nodes w' ''terraform/locals.tf'' =
       Some (Regular (take (write_count w ''terraform/locals.tf''
          (length (Bytes (fst (locals_document w))))) (Bytes (fst (locals_document w)))))"
    and "nodes w' ''terraform/main.tf'' =
       Some (Regular (take (write_count w ''terraform/main.tf''
          (length (Bytes (main_document nfc w)))) (Bytes (main_document nfc w))))"
    and "open_files w' (next_fd w) =
       Some \<lparr>of_path = ''terraform/locals.tf'',
             of_offset = write_count w ''terraform/locals.tf''
                (length (Bytes (fst (locals_document w)))),
             of_writable = True\<rparr>"
    and "open_files w' (Suc (next_fd w)) =
       Some \<lparr>of_path = ''terraform/main.tf'',
             of_offset = write_count w ''terraform/main.tf'' (length (Bytes (main_document nfc w))),
             of_writable = True\<rparr>"
proof -
  from assms obtain wa where a: "createTerraformLocals Bytes w = Inr wa"
    and b: "createTerraformMain nfc Bytes wa = Inr w'"
    by (auto simp: main_def split: sum.splits)
  from createTerraformLocals_effect[OF a] obtain w1 where
    m1: "makeDir ''terraform'' w = Inr w1" and wa: "wa = w1\<lparr>nodes := (nodes w1)(''terraform/locals.tf'' \<mapsto>
               Regular (take (write_count w ''terraform/locals.tf''
                  (length (Bytes (fst (locals_document w))))) (Bytes (fst (locals_document w))))),
             open_files := (open_files w1)(next_fd w1 \<mapsto>
               \<lparr>of_path = ''terraform/locals.tf'',
                of_offset = write_count w ''terraform/locals.tf''
                  (length (Bytes (fst (locals_document w)))),
                of_writable = True\<rparr>),
             next_fd := Suc (next_fd w1),
             rand_calls := rand_calls w1 + 50\<rparr>" by blast
  from createTerraformMain_effect[OF b] obtain w2 where
    m2: "makeDir ''terraform'' wa = Inr w2" and w': "w' = w2\<lparr>nodes := (nodes w2)(''terraform/main.tf'' \<mapsto>
               Regular (take (write_count wa ''terraform/main.tf''
                  (length (Bytes (main_document nfc wa)))) (Bytes (main_document nfc wa)))),
             open_files := (open_files w2)(next_fd w2 \<mapsto>
               \<lparr>of_path = ''terraform/main.tf'',
                of_offset = write_count wa ''terraform/main.tf''
                  (length (Bytes (main_document nfc wa))),
                of_writable = True\<rparr>),
             next_fd := Suc (next_fd w2)\<rparr>" by blast
  from makeDir_effect[OF m1] have f1: "environ w1 = environ w" "write_limit w1 = write_limit w"
    "next_fd w1 = next_fd w" by auto
  from makeDir_effect[OF m2] have f2: "next_fd w2 = next_fd wa" "open_files w2 = open_files wa"
    "nodes w2 ''terraform/locals.tf'' = nodes wa ''terraform/locals.tf''" by auto
  have d: "main_document nfc wa = main_document nfc w"
    using f1 by (intro main_document_env) (simp add: wa)
  have wc: "write_count wa p n = write_count w p n" for p n
    using f1 by (intro write_count_limit) (simp add: wa)
  note w'' = w'[unfolded d wc]
  show "nodes w' ''terraform/locals.tf'' =
       Some (Regular (take (write_count w ''terraform/locals.tf''
          (length (Bytes (fst (locals_document w))))) (Bytes (fst (locals_document w)))))"
    using f2 by (simp add: w'' wa)
  show "nodes w' ''terraform/main.tf'' =
       Some (Regular (take (write_count w ''terraform/main.tf''
          (length (Bytes (main_document nfc w)))) (Bytes (main_document nfc w))))"
    by (simp add: w'')
  show "open_files w' (next_fd w) =
       Some \<lparr>of_path = ''terraform/locals.tf'',
             of_offset = write_count w ''terraform/locals.tf''
                (length (Bytes (fst (locals_document w)))),
             of_writable = True\<rparr>"
    using f1 f2 by (simp add: w'' wa)
  show "open_files w' (Suc (next_fd w)) =
       Some \<lparr>of_path = ''terraform/main.tf'',
             of_offset = write_count w ''terraform/main.tf'' (length (Bytes (main_document nfc w))),
             of_writable = True\<rparr>"
    using f1 f2 by (simp add: w'' wa)
qed

lemma main_succeeds:
  assumes "stat_fault w ''terraform'' = None"
    and "nodes w ''terraform'' = Some Directory \<or>
         (nodes w ''terraform'' = None \<and> mkdir_fault w ''terraform'' = None)"
    and "create_fault w ''terraform/locals.tf'' = None"
    and "create_fault w ''terraform/main.tf'' = None"
    and "nodes w ''terraform/locals.tf'' \<noteq> Some Directory"
    and "nodes w ''terraform/main.tf'' \<noteq> Some Directory"
  shows "\<exists>w'. main nfc Bytes w = Inr w'"
proof -
  have dn: "dirname ''terraform'' = None" "dirname ''terraform/locals.tf'' = Some ''terraform''"
    "dirname ''terraform/main.tf'' = Some ''terraform''" by (simp_all add: dirname_def)
  from assms(1,2) obtain w1 where m1: "makeDir ''terraform'' w = Inr w1"
    and d1: "nodes w1 ''terraform'' = Some Directory"
    and k1: "w1 = w \<or> w1 = w\<lparr>nodes := (nodes w)(''terraform'' \<mapsto> Directory)\<rparr>"
    by (auto simp: makeDir_def os_Stat_def os_Mkdir_def parent_error_def dn IsNotExist_def)
  from k1 assms have c1: "create_fault w1 ''terraform/locals.tf'' = None"
    "nodes w1 ''terraform/locals.tf'' \<noteq> Some Directory" by auto
  with d1 obtain fd w2 where cf: "createFile tfLocalsFileName w1 = Inr (fd, w2)"
    using createFile_ok[of w1 tfLocalsFileName]
    by (auto simp: parent_error_def dn tfDir_def tfLocalsFileName_def)
  then obtain wa where a: "createTerraformLocals Bytes w = Inr wa"
    using m1 by (simp add: createTerraformLocals_def tfDir_def case_prod_beta)
  from createTerraformLocals_effect[OF a] m1 have wa: "wa = w1\<lparr>nodes := (nodes w1)(''terraform/locals.tf'' \<mapsto>
               Regular (take (write_count w ''terraform/locals.tf''
                  (length (Bytes (fst (locals_document w))))) (Bytes (fst (locals_document w))))),
             open_files := (open_files w1)(next_fd w1 \<mapsto>
               \<lparr>of_path = ''terraform/locals.tf'',
                of_offset = write_count w ''terraform/locals.tf''
                  (length (Bytes (fst (locals_document w)))),
                of_writable = True\<rparr>),
             next_fd := Suc (next_fd w1),
             rand_calls := rand_calls w1 + 50\<rparr>" by auto
  from k1 assms have s2: "stat_fault wa ''terraform'' = None" "nodes wa ''terraform'' = Some Directory"
    "create_fault wa ''terraform/main.tf'' = None" "nodes wa ''terraform/main.tf'' \<noteq> Some Directory"
    using d1 by (auto simp: wa)
  then have m2: "makeDir ''terraform'' wa = Inr wa"
    by (simp add: makeDir_def os_Stat_def parent_error_def dn)
  from s2 obtain fd' w3 where "createFile tfMainFileName wa = Inr (fd', w3)"
    using createFile_ok[of wa tfMainFileName]
    by (auto simp: parent_error_def dn tfDir_def tfMainFileName_def)
  with m2 have "\<exists>w'. createTerraformMain nfc Bytes wa = Inr w'"
    by (simp add: createTerraformMain_def tfDir_def)
  with a show ?thesis by (simp add: main_def)
qed

lemma rerun_succeeds: "\<exists>w'. main nfc Bytes rerun_world = Inr w'"
  by (rule main_succeeds) (simp_all add: world_examples)

lemma fresh_succeeds: "\<exists>w'. main nfc Bytes fresh_world = Inr w'"
  by (rule main_succeeds) (simp_all add: world_examples)

lemma outline_locals: "outline (fst (locals_document w)) = ''locals { secrets; } ''"
  by (simp add: locals_document_closed outline_def)

lemma outline_main:
  "outline (main_document nfc w) =
     ''resource { for_each; cluster; secret_name; secret_namespace; dynamic { for_each; content { field_name; crn; } } } ''"
  by (simp add: main_document_closed outline_def)

lemma documents_differ:
  "fst (locals_document fresh_world) \<noteq> fst (locals_document rerun_world)"
proof -
  have "length (crn_fields counting_source 0) = 5"
    using crn_fields_bounds[of counting_source 0]
    by (simp add: counting_source_def upt_0_5)
  moreover have "length (crn_fields repeating_source 0) = 4"
    by (simp add: crn_collision)
  ultimately have "crn_fields counting_source 0 \<noteq> crn_fields repeating_source 0" by auto
  then show ?thesis by (simp add: locals_document_closed world_examples)
qed

subsection \<open>The claims about the Resource Emitter\<close>

text \<open>
  Claim C4. In every run the document of the Resource Emitter is one block
  \<^verbatim>\<open>resource\<close> whose body sets \<^verbatim>\<open>for_each\<close> to the reference \<^verbatim>\<open>local.secrets\<close> and holds
  a block \<^verbatim>\<open>dynamic\<close> labelled \<^verbatim>\<open>fields\<close>; that block sets \<^verbatim>\<open>for_each\<close> to an
  expression written \<^verbatim>\<open>local.secrets[each.key].fields\<close> and holds a block \<^verbatim>\<open>content\<close>
  that sets \<^verbatim>\<open>field_name\<close> to \<^verbatim>\<open>fields.key\<close> and \<^verbatim>\<open>crn\<close> to \<^verbatim>\<open>fields.value\<close>. In the tree
  the index \<^verbatim>\<open>[each.key]\<close> is part of the name of the traversal's root, as the source
  writes it; the text is the one the claim gives.
\<close>

theorem main_document_shape:
  "main_document nfc w =
     [Block ''resource'' [''ibm_container_ingress_secret_opaque'', ''ingress-secret'']
        [Attribute ''for_each'' (TraversalExpr [TraverseRoot ''local'', TraverseAttr ''secrets'']),
         Attribute ''cluster'' (ValueExpr (StringVal (nfc (os_Getenv ''CLUSTER_ID'' w)))),
         Attribute ''secret_name'' (TraversalExpr [TraverseRoot ''each'', TraverseAttr ''key'']),
         Attribute ''secret_namespace'' (ValueExpr (StringVal (nfc (os_Getenv ''NAMESPACE'' w)))),
         Block ''dynamic'' [''fields'']
           [Attribute ''for_each''
              (TraversalExpr [TraverseRoot ''local.secrets[each.key]'', TraverseAttr ''fields'']),
            Block ''content'' []
              [Attribute ''field_name'' (TraversalExpr [TraverseRoot ''fields'', TraverseAttr ''key'']),
               Attribute ''crn'' (TraversalExpr [TraverseRoot ''fields'', TraverseAttr ''value''])]]]] \<and>
   traversal_text [TraverseRoot ''local'', TraverseAttr ''secrets''] = ''local.secrets'' \<and>
   traversal_text [TraverseRoot ''local.secrets[each.key]'', TraverseAttr ''fields''] =
     ''local.secrets[each.key].fields'' \<and>
   traversal_text [TraverseRoot ''fields'', TraverseAttr ''key''] = ''fields.key'' \<and>
   traversal_text [TraverseRoot ''fields'', TraverseAttr ''value''] = ''fields.value''"
  by (simp add: main_document_closed traversal_text_def)

text \<open>
  Claim C5, as amended. The claim says that the two attributes hold the values of the
  variables verbatim, for every environment. The program passes each value to
  \<^verbatim>\<open>cty.StringVal\<close> with no check of its own, and that call normalises: the attribute
  \<^verbatim>\<open>cluster\<close> holds the normal form of \<^verbatim>\<open>os.Getenv("CLUSTER_ID")\<close> and the attribute
  \<^verbatim>\<open>secret_namespace\<close> the normal form of \<^verbatim>\<open>os.Getenv("NAMESPACE")\<close>, for every
  environment. The attribute holds the value of the variable verbatim whenever that
  value is already in normal form (every ASCII value is); when the variable is unset
  the attribute is present and holds the empty string, which is its own normal form.
\<close>

theorem environment_attributes:
  "GetAttribute ''cluster'' (body_at [0] (main_document nfc w)) =
     Some (ValueExpr (StringVal (nfc (os_Getenv ''CLUSTER_ID'' w)))) \<and>
   GetAttribute ''secret_namespace'' (body_at [0] (main_document nfc w)) =
     Some (ValueExpr (StringVal (nfc (os_Getenv ''NAMESPACE'' w)))) \<and>
   (\<forall>v. environ w ''CLUSTER_ID'' = Some v \<and> nfc v = v \<longrightarrow>
      GetAttribute ''cluster'' (body_at [0] (main_document nfc w)) =
        Some (ValueExpr (StringVal v))) \<and>
   (\<forall>v. environ w ''NAMESPACE'' = Some v \<and> nfc v = v \<longrightarrow>
      GetAttribute ''secret_namespace'' (body_at [0] (main_document nfc w)) =
        Some (ValueExpr (StringVal v))) \<and>
   (environ w ''CLUSTER_ID'' = None \<and> nfc [] = [] \<longrightarrow>
      GetAttribute ''cluster'' (body_at [0] (main_document nfc w)) =
        Some (ValueExpr (StringVal ''''))) \<and>
   (environ w ''NAMESPACE'' = None \<and> nfc [] = [] \<longrightarrow>
      GetAttribute ''secret_namespace'' (body_at [0] (main_document nfc w)) =
        Some (ValueExpr (StringVal '''')))"
  by (simp add: main_document_closed os_Getenv_def)

theorem environment_attributes_witness:
  "environ fresh_world ''CLUSTER_ID'' = Some ''prod-1234'' \<and>
   sample_nfc ''prod-1234'' = ''prod-1234'' \<and>
   environ fresh_world ''NAMESPACE'' = Some ''ns-a'' \<and> sample_nfc ''ns-a'' = ''ns-a'' \<and>
   GetAttribute ''cluster'' (body_at [0] (main_document sample_nfc fresh_world)) =
     Some (ValueExpr (StringVal ''prod-1234'')) \<and>
   GetAttribute ''secret_namespace'' (body_at [0] (main_document sample_nfc fresh_world)) =
     Some (ValueExpr (StringVal ''ns-a'')) \<and>
   environ unset_world ''CLUSTER_ID'' = None \<and> environ unset_world ''NAMESPACE'' = None \<and>
   sample_nfc [] = [] \<and>
   GetAttribute ''cluster'' (body_at [0] (main_document sample_nfc unset_world)) =
     Some (ValueExpr (StringVal '''')) \<and>
   GetAttribute ''secret_namespace'' (body_at [0] (main_document sample_nfc unset_world)) =
     Some (ValueExpr (StringVal ''''))"
proof -
  have e: "environ fresh_world ''CLUSTER_ID'' = Some ''prod-1234''"
    "environ fresh_world ''NAMESPACE'' = Some ''ns-a''"
    "environ unset_world ''CLUSTER_ID'' = None" "environ unset_world ''NAMESPACE'' = None"
    by (simp_all add: world_examples)
  have n: "sample_nfc ''prod-1234'' = ''prod-1234''" "sample_nfc ''ns-a'' = ''ns-a''"
    "sample_nfc [] = []"
    by (simp_all add: sample_nfc_def)
  from environment_attributes [of sample_nfc fresh_world] e(1,2) n(1,2)
  have a: "GetAttribute ''cluster'' (body_at [0] (main_document sample_nfc fresh_world)) =
      Some (ValueExpr (StringVal ''prod-1234''))"
    "GetAttribute ''secret_namespace'' (body_at [0] (main_document sample_nfc fresh_world)) =
      Some (ValueExpr (StringVal ''ns-a''))" by blast+
  from environment_attributes [of sample_nfc unset_world] e(3,4) n(3)
  have b: "GetAttribute ''cluster'' (body_at [0] (main_document sample_nfc unset_world)) =
      Some (ValueExpr (StringVal ''''))"
    "GetAttribute ''secret_namespace'' (body_at [0] (main_document sample_nfc unset_world)) =
      Some (ValueExpr (StringVal ''''))" by blast+
  from e n a b show ?thesis by blast
qed

text \<open>
  Claim C5 as stated fails for a value that is not in normal form: with
  \<^verbatim>\<open>CLUSTER_ID\<close> set to e followed by U+0301 (three bytes), the attribute \<^verbatim>\<open>cluster\<close>
  holds U+00E9 (two bytes), not the value of the variable.
\<close>

theorem environment_attributes_counterexample:
  "os_Getenv ''CLUSTER_ID'' decomposed_world = [CHR 0x65, CHR 0xCC, CHR 0x81] \<and>
   GetAttribute ''cluster'' (body_at [0] (main_document sample_nfc decomposed_world)) =
     Some (ValueExpr (StringVal [CHR 0xC3, CHR 0xA9])) \<and>
   GetAttribute ''cluster'' (body_at [0] (main_document sample_nfc decomposed_world)) \<noteq>
     Some (ValueExpr (StringVal (os_Getenv ''CLUSTER_ID'' decomposed_world)))"
  by (simp add: main_document_closed os_Getenv_def sample_nfc_def world_examples)

section \<open>create-output-file and the written files\<close>

text \<open>
  Claim C8. \<^verbatim>\<open>createFile\<close> aborts the process with the error of \<^verbatim>\<open>os.Create\<close> whenever
  that call fails; when it succeeds, \<^verbatim>\<open>createFile\<close> returns the descriptor, which is
  open for writing at offset 0 on the path \<^verbatim>\<open>terraform/\<close> followed by the name, and
  the file is empty. The program never closes a descriptor: when \<^verbatim>\<open>main\<close> returns,
  the descriptors of both files are still open.
\<close>

theorem createFile_aborts_or_opens:
  "(\<forall>e. os_Create (''terraform/'' @ fileName) w = Inl e \<longrightarrow>
      createFile fileName w = Inl (Panic e)) \<and>
   (\<forall>file w'. os_Create (''terraform/'' @ fileName) w = Inr (file, w') \<longrightarrow>
      createFile fileName w = Inr (file, w') \<and>
      open_files w' file =
        Some \<lparr>of_path = ''terraform/'' @ fileName, of_offset = 0, of_writable = True\<rparr> \<and>
      nodes w' (''terraform/'' @ fileName) = Some (Regular [])) \<and>
   (\<forall>w'. main nfc Bytes w = Inr w' \<longrightarrow>
      (\<exists>f. open_files w' (next_fd w) = Some f \<and> of_path f = ''terraform/locals.tf'' \<and>
           of_writable f) \<and>
      (\<exists>f. open_files w' (Suc (next_fd w)) = Some f \<and> of_path f = ''terraform/main.tf'' \<and>
           of_writable f))"
proof (intro conjI allI impI)
  fix e assume "os_Create (''terraform/'' @ fileName) w = Inl e"
  then show "createFile fileName w = Inl (Panic e)" by (simp add: createFile_def tfDir_def)
next
  fix fd w' assume c: "os_Create (''terraform/'' @ fileName) w = Inr (fd, w')"
  then show "createFile fileName w = Inr (fd, w')" by (simp add: createFile_def tfDir_def)
  from c show "open_files w' fd =
        Some \<lparr>of_path = ''terraform/'' @ fileName, of_offset = 0, of_writable = True\<rparr>"
    by (auto simp: os_Create_def split: option.splits inode.splits)
  from c show "nodes w' (''terraform/'' @ fileName) = Some (Regular [])"
    by (auto simp: os_Create_def split: option.splits inode.splits)
next
  fix w' assume m: "main nfc Bytes w = Inr w'"
  from main_effect(3)[OF m]
  show "\<exists>f. open_files w' (next_fd w) = Some f \<and> of_path f = ''terraform/locals.tf'' \<and> of_writable f"
    by simp
  from main_effect(4)[OF m]
  show "\<exists>f. open_files w' (Suc (next_fd w)) = Some f \<and> of_path f = ''terraform/main.tf'' \<and> of_writable f"
    by simp
qed

theorem createFile_aborts_or_opens_witness:
  "os_Create ''terraform/locals.tf'' locked_world = Inl EACCES \<and>
   createFile ''locals.tf'' locked_world = Inl (Panic EACCES) \<and>
   (\<exists>w'. os_Create ''terraform/locals.tf'' rerun_world = Inr (3, w') \<and>
      createFile ''locals.tf'' rerun_world = Inr (3, w') \<and>
      open_files w' 3 =
        Some \<lparr>of_path = ''terraform/locals.tf'', of_offset = 0, of_writable = True\<rparr> \<and>
      nodes w' ''terraform/locals.tf'' = Some (Regular [])) \<and>
   (\<exists>w' f g. main sample_nfc outline rerun_world = Inr w' \<and>
      open_files w' 3 = Some f \<and> of_path f = ''terraform/locals.tf'' \<and> of_writable f \<and>
      open_files w' 4 = Some g \<and> of_path g = ''terraform/main.tf'' \<and> of_writable g)"
proof -
  have l: "os_Create ''terraform/locals.tf'' locked_world = Inl EACCES"
    by (simp add: os_calls world_examples)
  have "\<exists>w'. os_Create ''terraform/locals.tf'' rerun_world = Inr (3, w')"
    by (simp add: os_calls world_examples)
  then obtain wc where r: "os_Create ''terraform/locals.tf'' rerun_world = Inr (3, wc)" ..
  have n: "next_fd rerun_world = 3" by (simp add: world_examples)
  obtain wm where m: "main sample_nfc outline rerun_world = Inr wm" using rerun_succeeds by blast
  note t = createFile_aborts_or_opens [of "''locals.tf''" _ sample_nfc outline, simplified]
  from t [of locked_world] l have a: "createFile ''locals.tf'' locked_world = Inl (Panic EACCES)"
    by blast
  from t [of rerun_world] r have b: "createFile ''locals.tf'' rerun_world = Inr (3, wc) \<and>
      open_files wc 3 =
        Some \<lparr>of_path = ''terraform/locals.tf'', of_offset = 0, of_writable = True\<rparr> \<and>
      nodes wc ''terraform/locals.tf'' = Some (Regular [])" by blast
  from t [of rerun_world] m n have c: "\<exists>f g. 
      open_files wm 3 = Some f \<and> of_path f = ''terraform/locals.tf'' \<and> of_writable f \<and>
      open_files wm 4 = Some g \<and> of_path g = ''terraform/main.tf'' \<and> of_writable g"
    by (auto simp: eval_nat_numeral)
  from l a r b m c show ?thesis by blast
qed

text \<open>
  Claim C9. Whatever \<^verbatim>\<open>terraform/locals.tf\<close> and \<^verbatim>\<open>terraform/main.tf\<close> held before (the
  world \<open>w\<close> is arbitrary), after a run that does not abort and whose two writes store
  all their bytes, each file holds exactly the bytes serialized in this run:
  \<^verbatim>\<open>os.Create\<close> truncates, so nothing of the old content is left. The program drops
  what \<^verbatim>\<open>Write\<close> returns, so a write cut short does not abort the run; the file then
  holds a prefix of the new bytes (\<open>main_effect\<close>), still nothing of the old ones.
\<close>

theorem main_overwrites_files:
  assumes "main nfc Bytes w = Inr w'"
    and "write_count w ''terraform/locals.tf'' (length (Bytes (fst (locals_document w)))) =
           length (Bytes (fst (locals_document w)))"
    and "write_count w ''terraform/main.tf'' (length (Bytes (main_document nfc w))) =
           length (Bytes (main_document nfc w))"
  shows "nodes w' ''terraform/locals.tf'' = Some (Regular (Bytes (fst (locals_document w)))) \<and>
         nodes w' ''terraform/main.tf'' = Some (Regular (Bytes (main_document nfc w)))"
  using main_effect(1,2)[OF assms(1)] assms(2,3) by simp

theorem main_overwrites_files_witness:
  "nodes rerun_world ''terraform/locals.tf'' = Some (Regular (replicate 4000 (CHR ''x''))) \<and>
   nodes rerun_world ''terraform/main.tf'' = Some (Regular (replicate 4000 (CHR ''y''))) \<and>
   (\<exists>w'. main sample_nfc outline rerun_world = Inr w' \<and>
      nodes w' ''terraform/locals.tf'' = Some (Regular ''locals { secrets; } '') \<and>
      nodes w' ''terraform/main.tf'' = Some (Regular
        ''resource { for_each; cluster; secret_name; secret_namespace; dynamic { for_each; content { field_name; crn; } } } ''))"
proof -
  have p: "nodes rerun_world ''terraform/locals.tf'' = Some (Regular (replicate 4000 (CHR ''x'')))"
    "nodes rerun_world ''terraform/main.tf'' = Some (Regular (replicate 4000 (CHR ''y'')))"
    by (simp_all add: world_examples)
  have c: "write_count rerun_world q n = n" for q n
    by (simp add: write_count_def world_examples)
  obtain w' where m: "main sample_nfc outline rerun_world = Inr w'" using rerun_succeeds by blast
  from main_overwrites_files [OF m c c]
  have "nodes w' ''terraform/locals.tf'' = Some (Regular ''locals { secrets; } '') \<and>
      nodes w' ''terraform/main.tf'' = Some (Regular
        ''resource { for_each; cluster; secret_name; secret_namespace; dynamic { for_each; content { field_name; crn; } } } '')"
    by (simp only: outline_locals outline_main)
  with m p show ?thesis by blast
qed

text \<open>
  Claim C10. The content of \<^verbatim>\<open>terraform/main.tf\<close> is a function of the values of
  \<^verbatim>\<open>CLUSTER_ID\<close> and \<^verbatim>\<open>NAMESPACE\<close> alone: two runs that do not abort and write the
  file in full, in worlds that agree on the two values and may differ in everything
  else (the random source, the files present before, the bytes of \<^verbatim>\<open>locals.tf\<close>),
  leave the same bytes in \<^verbatim>\<open>main.tf\<close>, the serialized Resource Emitter document.
\<close>

theorem main_tf_determined_by_environment:
  assumes "main nfc Bytes w1 = Inr w1'" and "main nfc Bytes w2 = Inr w2'"
    and "os_Getenv ''CLUSTER_ID'' w1 = os_Getenv ''CLUSTER_ID'' w2"
    and "os_Getenv ''NAMESPACE'' w1 = os_Getenv ''NAMESPACE'' w2"
    and "write_count w1 ''terraform/main.tf'' (length (Bytes (main_document nfc w1))) =
           length (Bytes (main_document nfc w1))"
    and "write_count w2 ''terraform/main.tf'' (length (Bytes (main_document nfc w2))) =
           length (Bytes (main_document nfc w2))"
  shows "nodes w1' ''terraform/main.tf'' = nodes w2' ''terraform/main.tf'' \<and>
         nodes w1' ''terraform/main.tf'' = Some (Regular (Bytes (main_document nfc w1)))"
proof -
  from assms(3,4) have "main_document nfc w1 = main_document nfc w2"
    by (simp add: main_document_closed)
  with main_effect(2)[OF assms(1)] main_effect(2)[OF assms(2)] assms(5,6)
  show ?thesis by simp
qed

theorem main_tf_determined_by_environment_witness:
  "rand_source fresh_world \<noteq> rand_source rerun_world \<and>
   nodes fresh_world \<noteq> nodes rerun_world \<and>
   fst (locals_document fresh_world) \<noteq> fst (locals_document rerun_world) \<and>
   os_Getenv ''CLUSTER_ID'' fresh_world = os_Getenv ''CLUSTER_ID'' rerun_world \<and>
   os_Getenv ''NAMESPACE'' fresh_world = os_Getenv ''NAMESPACE'' rerun_world \<and>
   (\<exists>w1' w2'. main sample_nfc outline fresh_world = Inr w1' \<and> main sample_nfc outline rerun_world = Inr w2' \<and>
      nodes w1' ''terraform/main.tf'' = nodes w2' ''terraform/main.tf'' \<and>
      nodes w1' ''terraform/main.tf'' = Some (Regular (outline (main_document sample_nfc fresh_world))))"
proof -
  have "counting_source 2 \<noteq> repeating_source 2"
    by (simp add: counting_source_def repeating_source_def)
  then have "counting_source \<noteq> repeating_source" by metis
  then have r: "rand_source fresh_world \<noteq> rand_source rerun_world" by (simp add: world_examples)
  have "nodes fresh_world ''terraform'' \<noteq> nodes rerun_world ''terraform''"
    by (simp add: world_examples)
  then have n: "nodes fresh_world \<noteq> nodes rerun_world" by metis
  have e: "os_Getenv ''CLUSTER_ID'' fresh_world = os_Getenv ''CLUSTER_ID'' rerun_world"
    "os_Getenv ''NAMESPACE'' fresh_world = os_Getenv ''NAMESPACE'' rerun_world"
    by (simp_all add: os_Getenv_def world_examples)
  have c: "write_count fresh_world q k = k" "write_count rerun_world q k = k" for q k
    by (simp_all add: write_count_def world_examples)
  obtain w1' where m1: "main sample_nfc outline fresh_world = Inr w1'" using fresh_succeeds by blast
  obtain w2' where m2: "main sample_nfc outline rerun_world = Inr w2'" using rerun_succeeds by blast
  from main_tf_determined_by_environment [OF m1 m2 e c(1) c(2)] m1 m2 r n e documents_differ
  show ?thesis by blast
qed

end
